theory Spec2Isabelle
  imports Main
begin

section \<open>Values, errors and strings\<close>

text \<open>
  Opaque data that only flows through the account kit (bridge results, payments, ack
  payloads) is a passable value; the code never looks inside it, apart from interface
  guards that ask for its kind.
\<close>

datatype passable =
    PUndefined
  | PNull
  | PBool bool
  | PBigInt int
  | PString string
  | PArray "passable list"
  | PRecord "(string \<times> passable) list"
  | PRemotable string

text \<open>
  A thrown JavaScript error. \<open>Error m\<close> is an error object with message \<open>m\<close>, as made
  by \<^verbatim>\<open>Error('...')\<close> and by the \<^verbatim>\<open>Fail\<close> template tag. \<open>GuardMismatch facet method\<close>
  is the error an exo interface guard throws when the arguments of \<open>facet.method\<close> do not
  match the \<^verbatim>\<open>M.call(...)\<close> pattern or its result does not match \<^verbatim>\<open>returns(...)\<close>; its
  message is produced by the pattern library (it names the method, the argument and the
  pattern) and is not one of the messages written in the source. \<open>SyntaxError s\<close> is what
  \<^verbatim>\<open>BigInt(s)\<close> throws on a string that is not an integer literal.
\<close>

datatype error =
    Error string
  | SyntaxError string
  | GuardMismatch string string

text \<open>\<^verbatim>\<open>String.prototype.includes\<close>: does \<open>s\<close> contain \<open>p\<close> as a contiguous run?\<close>

fun startsWith :: "string \<Rightarrow> string \<Rightarrow> bool" where
  "startsWith s [] = True"
| "startsWith [] (p # ps) = False"
| "startsWith (c # cs) (p # ps) = (c = p \<and> startsWith cs ps)"

fun includesStr :: "string \<Rightarrow> string \<Rightarrow> bool" where
  "includesStr [] p = (p = [])"
| "includesStr (c # cs) p = (startsWith (c # cs) p \<or> includesStr cs p)"

text \<open>\<^verbatim>\<open>String(n)\<close> of a bigint: its decimal digits, with a minus sign when negative.\<close>

definition digitChar :: "nat \<Rightarrow> char" where
  "digitChar d = ''0123456789'' ! d"

function decimalDigits :: "nat \<Rightarrow> string" where
  "decimalDigits n =
     (if n < 10 then [digitChar n] else decimalDigits (n div 10) @ [digitChar (n mod 10)])"
  by pat_completeness auto
termination
  by (relation "measure id") auto

declare decimalDigits.simps [simp del]

definition String_bigint :: "int \<Rightarrow> string" where
  "String_bigint i =
     (if i < 0 then CHR ''-'' # decimalDigits (nat (- i)) else decimalDigits (nat i))"

text \<open>
  \<^verbatim>\<open>BigInt(s)\<close> of a string (the StringToBigInt operation): white space is trimmed, the
  empty string is 0, then either a decimal literal with an optional sign or an unsigned
  literal with a \<^verbatim>\<open>0x\<close>, \<^verbatim>\<open>0o\<close> or \<^verbatim>\<open>0b\<close> prefix. \<open>None\<close> is the SyntaxError.
  Characters are read as code units below 256.
\<close>

definition isStrWhiteSpaceChar :: "char \<Rightarrow> bool" where
  "isStrWhiteSpaceChar c = (of_char c \<in> {9, 10, 11, 12, 13, 32, 160 :: nat})"

definition digitValue :: "char \<Rightarrow> nat option" where
  "digitValue c =
     (let k = (of_char c :: nat) in
      if 48 \<le> k \<and> k \<le> 57 then Some (k - 48)
      else if 97 \<le> k \<and> k \<le> 122 then Some (k - 87)
      else if 65 \<le> k \<and> k \<le> 90 then Some (k - 55)
      else None)"

fun digitsToNat :: "nat \<Rightarrow> string \<Rightarrow> nat \<Rightarrow> nat option" where
  "digitsToNat r [] acc = Some acc"
| "digitsToNat r (c # cs) acc =
     (case digitValue c of
        None \<Rightarrow> None
      | Some d \<Rightarrow> if d < r then digitsToNat r cs (acc * r + d) else None)"

definition parseDigits :: "nat \<Rightarrow> string \<Rightarrow> int option" where
  "parseDigits r s = (if s = [] then None else map_option int (digitsToNat r s 0))"

definition trim :: "string \<Rightarrow> string" where
  "trim s = rev (dropWhile isStrWhiteSpaceChar (rev (dropWhile isStrWhiteSpaceChar s)))"

definition StringToBigInt :: "string \<Rightarrow> int option" where
  "StringToBigInt s =
     (let t = trim s in
      if t = [] then Some 0
      else if take 2 t = ''0x'' \<or> take 2 t = ''0X'' then parseDigits 16 (drop 2 t)
      else if take 2 t = ''0o'' \<or> take 2 t = ''0O'' then parseDigits 8 (drop 2 t)
      else if take 2 t = ''0b'' \<or> take 2 t = ''0B'' then parseDigits 2 (drop 2 t)
      else if hd t = CHR ''-'' then map_option uminus (parseDigits 10 (tl t))
      else if hd t = CHR ''+'' then parseDigits 10 (tl t)
      else parseDigits 10 t)"

section \<open>Resumable futures\<close>

text \<open>
  Modelled from the spec: the vow tools (\<^verbatim>\<open>watch\<close>, \<^verbatim>\<open>allVows\<close>, \<^verbatim>\<open>asVow\<close> of the vow
  package, which is not among the sources). A future starts unsettled and settles at most
  once, fulfilled with a value or rejected with a reason. The model records the outcome
  together with the timer-service time at which it settles; \<open>Pending\<close> is a future that
  never settles.
\<close>

datatype 'a vow =
    Pending
  | Fulfilled int 'a
  | Rejected int error

fun settleTime :: "'a vow \<Rightarrow> int option" where
  "settleTime Pending = None"
| "settleTime (Fulfilled t x) = Some t"
| "settleTime (Rejected t e) = Some t"

text \<open>\<open>settledBy v t\<close>: has \<open>v\<close> settled when the timer service shows time \<open>t\<close>?\<close>

definition settledBy :: "'a vow \<Rightarrow> int \<Rightarrow> bool" where
  "settledBy v t = (case settleTime v of None \<Rightarrow> False | Some s \<Rightarrow> s \<le> t)"

fun rejectionIncludes :: "'a vow \<Rightarrow> string \<Rightarrow> bool" where
  "rejectionIncludes (Rejected t (Error m)) p = includesStr m p"
| "rejectionIncludes v p = False"

text \<open>A reply to a call made at time \<open>now\<close> cannot be seen before \<open>now\<close>.\<close>

fun after :: "int \<Rightarrow> 'a vow \<Rightarrow> 'a vow" where
  "after now Pending = Pending"
| "after now (Fulfilled t x) = Fulfilled (max now t) x"
| "after now (Rejected t e) = Rejected (max now t) e"

section \<open>Messages and collaborator calls\<close>

record coin =
  denom :: string
  amount :: string

record msgStaking =
  amount :: coin
  validatorAddress :: string
  delegatorAddress :: string

record msgSend =
  amount :: "coin list"
  toAddress :: string
  fromAddress :: string

record height =
  revisionHeight :: int
  revisionNumber :: int

text \<open>The caller's \<^verbatim>\<open>IBCMsgTransferOptions\<close>; an absent property is \<open>None\<close>.\<close>

record ibcMsgTransferOptions =
  timeoutTimestamp :: "int option"
  timeoutHeight :: "height option"
  memo :: "string option"

record msgTransfer =
  sourcePort :: string
  sourceChannel :: string
  token :: coin
  sender :: string
  receiver :: string
  timeoutHeight :: height
  timeoutTimestamp :: int
  memo :: string

text \<open>\<^verbatim>\<open>typedJson(typeUrl, obj)\<close>: the message object tagged with its type URL.\<close>

datatype txMsg =
    MsgDelegate msgStaking
  | MsgUndelegate msgStaking
  | MsgSend msgSend
  | MsgTransfer msgTransfer
  | MsgOther passable

text \<open>
  \<^verbatim>\<open>makeIBCTransferSender(holder, transferMsg)\<close> wraps the transfer message in a packet
  sender; other senders are opaque.
\<close>

datatype packetSender =
    IBCTransferSender msgTransfer
  | PacketSender string

text \<open>
  The calls a method makes on its collaborators (bridge account, timer service, connection
  directory, timestamp helper, packet tools, name hub), in the order they are issued.
\<close>

datatype call =
    ExecuteTx "txMsg list"
  | AccountDeposit passable
  | AccountWithdraw "string \<times> int"
  | AccountGetBalance "string option"
  | WakeAt int
  | GetConnectionInfo string string
  | GetTimeoutTimestampNS
  | SendThenWaitForAck packetSender passable
  | MatchFirstPacket passable
  | MonitorTransfers passable
  | NameHubLookup string
  | NameHubValues

type_synonym 'a async = "call list \<times> 'a vow"

text \<open>
  \<^verbatim>\<open>E(target).method(args)\<close> issued at time \<open>now\<close>: the call is recorded, and the future is
  the collaborator's reply.
\<close>

definition E :: "int \<Rightarrow> call \<Rightarrow> 'a vow \<Rightarrow> 'a async" where
  "E now c reply = ([c], after now reply)"

text \<open>
  \<^verbatim>\<open>watch(future, watcher, ctx)\<close>: when the future fulfils at time \<open>t\<close> the watcher's
  \<^verbatim>\<open>onFulfilled\<close> runs then, and the new future adopts what it returns; a rejection passes
  through (no watcher here has an \<^verbatim>\<open>onRejected\<close>); nothing runs while it is unsettled.
\<close>

fun watch :: "'a async \<Rightarrow> (int \<Rightarrow> 'a \<Rightarrow> 'b async) \<Rightarrow> 'b async" where
  "watch (cs, Pending) h = (cs, Pending)"
| "watch (cs, Rejected t e) h = (cs, Rejected t e)"
| "watch (cs, Fulfilled t x) h = (cs @ fst (h t x), after t (snd (h t x)))"

text \<open>\<^verbatim>\<open>watch(future)\<close> without a watcher: a future for the same outcome.\<close>

definition watchOnly :: "'a async \<Rightarrow> 'a async" where
  "watchOnly a = a"

text \<open>What a synchronous function body does: throw, or return.\<close>

datatype 'a completion =
    Throw error
  | Return 'a

text \<open>
  \<^verbatim>\<open>asVow(fn)\<close> runs \<open>fn\<close> now; a throw becomes a rejected future, a returned future is
  passed on.
\<close>

fun asVow :: "int \<Rightarrow> ('a async) completion \<Rightarrow> 'a async" where
  "asVow now (Throw e) = ([], Rejected now e)"
| "asVow now (Return a) = a"

text \<open>A watcher body that returns a plain value, or throws, at time \<open>t\<close>.\<close>

fun settleNow :: "int \<Rightarrow> 'a completion \<Rightarrow> 'a async" where
  "settleNow t (Throw e) = ([], Rejected t e)"
| "settleNow t (Return x) = ([], Fulfilled t x)"

text \<open>
  \<^verbatim>\<open>allVows([a, b])\<close> fails fast: it rejects as soon as one input rejects, with that
  rejection, and otherwise fulfils with both values once both have settled.
\<close>

fun allVows :: "'a async \<Rightarrow> 'b async \<Rightarrow> ('a \<times> 'b) async" where
  "allVows (cs, Rejected t e) (ds, Rejected u f) =
     (cs @ ds, if t \<le> u then Rejected t e else Rejected u f)"
| "allVows (cs, Rejected t e) (ds, w) = (cs @ ds, Rejected t e)"
| "allVows (cs, v) (ds, Rejected u f) = (cs @ ds, Rejected u f)"
| "allVows (cs, Fulfilled t x) (ds, Fulfilled u y) = (cs @ ds, Fulfilled (max t u) (x, y))"
| "allVows (cs, v) (ds, w) = (cs @ ds, Pending)"

section \<open>Collaborators of the account kit\<close>

text \<open>
  Modelled from the spec: the time service (not among the sources). \<^verbatim>\<open>wakeAt(timestamp)\<close>
  is a one-shot wake: its future fulfils with no value once the service's time has reached
  the timestamp, at once when that time is already past, and never rejects.
\<close>

definition wakeAt :: "int \<Rightarrow> int \<Rightarrow> passable async" where
  "wakeAt now w = E now (WakeAt w) (Fulfilled w PUndefined)"

record transferChannel =
  portId :: string
  channelId :: string

record connectionInfo =
  transferChannel :: transferChannel

text \<open>
  Modelled from the spec: the connection directory (the chain hub, not among the sources).
  \<^verbatim>\<open>getConnectionInfo(src, dst)\<close> gives the registered connection and rejects with
  \<^verbatim>\<open>connection not found: src<->dst\<close> when there is none.
\<close>

type_synonym connections = "string \<times> string \<Rightarrow> connectionInfo option"

definition getConnectionInfo :: "connections \<Rightarrow> int \<Rightarrow> string \<Rightarrow> string \<Rightarrow> connectionInfo async" where
  "getConnectionInfo reg now src dst =
     ([GetConnectionInfo src dst],
      case reg (src, dst) of
        Some info \<Rightarrow> Fulfilled now info
      | None \<Rightarrow> Rejected now (Error (''connection not found: '' @ src @ ''<->'' @ dst)))"

text \<open>
  Modelled from the spec: the timestamp helper (\<^verbatim>\<open>utils/time.js\<close>, not among the sources).
  \<^verbatim>\<open>getTimeoutTimestampNS()\<close> gives the time five minutes from now, in nanoseconds; the
  timer service counts seconds.
\<close>

definition getTimeoutTimestampNS :: "int \<Rightarrow> int async" where
  "getTimeoutTimestampNS now =
     E now GetTimeoutTimestampNS (Fulfilled now ((now + 5 * 60) * 1000000000))"

text \<open>
  The shapes of \<^verbatim>\<open>typeGuards.js\<close> and of the ERTP package that the watchers' interface
  guards use are not among the sources; they are parameters, and so is the pattern
  library's bound on the number of digits of a bigint. \<^verbatim>\<open>M.nat()\<close> admits the bigints that
  are not negative and are within that bound.
\<close>

record shapes =
  AmountShape :: "string \<times> int \<Rightarrow> bool"
  DenomShape :: "string \<Rightarrow> bool"
  DenomAmountShape :: "string \<times> int \<Rightarrow> bool"
  ChainAddressShape :: "string \<times> string \<times> string \<Rightarrow> bool"
  IBCTransferOptionsShape :: "ibcMsgTransferOptions \<Rightarrow> bool"
  TimestampProtoShape :: "string \<times> int \<Rightarrow> bool"
  withinDecimalDigitsLimit :: "int \<Rightarrow> bool"

definition M_nat :: "shapes \<Rightarrow> int \<Rightarrow> bool" where
  "M_nat sh n = (0 \<le> n \<and> withinDecimalDigitsLimit sh n)"

section \<open>The local orchestration account kit\<close>

text \<open>
  The arguments of a holder method are taken to satisfy the holder's own interface guard
  (\<^verbatim>\<open>HolderI\<close>), which runs before the method body; the helper's guard asks the same of the
  same amount and is not written out again.
\<close>

record chainAddress =
  addressValue :: string
  encoding :: string
  chainId :: string

text \<open>
  An \<^verbatim>\<open>AmountArg\<close> is either an ERTP amount \<^verbatim>\<open>{brand, value}\<close> or a denom amount
  \<^verbatim>\<open>{denom, value}\<close>; \<^verbatim>\<open>'denom' in amount\<close> holds for the second form only and
  \<^verbatim>\<open>'brand' in amount\<close> for the first only.
\<close>

datatype amountArg =
    ErtpAmount string int
  | DenomAmount string int

fun hasDenom :: "amountArg \<Rightarrow> bool" where
  "hasDenom (DenomAmount d v) = True"
| "hasDenom (ErtpAmount b v) = False"

fun hasBrand :: "amountArg \<Rightarrow> bool" where
  "hasBrand (ErtpAmount b v) = True"
| "hasBrand (DenomAmount d v) = False"

text \<open>The bridge's JSON reply to an undelegate message.\<close>

record timestampProto =
  seconds :: string
  nanos :: int

record msgUndelegateResponse =
  completionTime :: timestampProto

record state =
  account :: string
  address :: chainAddress
  topicKit :: string
  packetTools :: string

text \<open>
  The kit's \<^verbatim>\<open>init\<close>: the recorder kit and the packet tools are made from the storage node
  and the account (a first, empty write to the recorder is sent and not waited for);
  account and address are stored as given.
\<close>

definition init :: "(string \<Rightarrow> string) \<Rightarrow> (string \<Rightarrow> string) \<Rightarrow> string \<Rightarrow> chainAddress \<Rightarrow> string \<Rightarrow> state" where
  "init makeRecorderKit makePacketTools acct addr storageNode =
     \<lparr>account = acct, address = addr,
      topicKit = makeRecorderKit storageNode, packetTools = makePacketTools acct\<rparr>"

subsection \<open>helper\<close>

fun amountToCoin :: "amountArg \<Rightarrow> coin completion" where
  "amountToCoin (ErtpAmount b v) = Throw (Error ''Brands not currently supported.'')"
| "amountToCoin (DenomAmount d v) = Return \<lparr>denom = d, amount = String_bigint v\<rparr>"

text \<open>
  \<^verbatim>\<open>amounts.map(a => helper.amountToCoin(a))\<close>: the first throw ends the map.
\<close>

fun mapAmountToCoin :: "amountArg list \<Rightarrow> (coin list) completion" where
  "mapAmountToCoin [] = Return []"
| "mapAmountToCoin (a # as) =
     (case amountToCoin a of
        Throw e \<Rightarrow> Throw e
      | Return c \<Rightarrow>
          (case mapAmountToCoin as of Throw e \<Rightarrow> Throw e | Return cs \<Rightarrow> Return (c # cs)))"

subsection \<open>invitationMakers\<close>

definition CloseAccount :: "(passable async) completion" where
  "CloseAccount = Throw (Error ''not yet implemented'')"

subsection \<open>Watchers\<close>

definition returnVoidWatcher_onFulfilled :: "int \<Rightarrow> 'a \<Rightarrow> passable async" where
  "returnVoidWatcher_onFulfilled t x = settleNow t (Return PUndefined)"

text \<open>
  The guard of \<open>undelegateWatcher.onFulfilled\<close> is the one-element array pattern
  \<^verbatim>\<open>[M.splitRecord({ completionTime: TimestampProtoShape })]\<close>. The body reads
  \<^verbatim>\<open>response[0].completionTime\<close>, converts its seconds with \<^verbatim>\<open>BigInt\<close>, adds
  \<open>maxClockSkew\<close> (a constant of \<^verbatim>\<open>utils/cosmos.js\<close>, a parameter here) and watches the
  timer's wake with the return-void watcher.
\<close>

fun undelegateWatcher_onFulfilled ::
  "shapes \<Rightarrow> int \<Rightarrow> int \<Rightarrow> msgUndelegateResponse list \<Rightarrow> passable async" where
  "undelegateWatcher_onFulfilled sh maxClockSkew t [r] =
     (if TimestampProtoShape sh (seconds (completionTime r), nanos (completionTime r)) then
        (case StringToBigInt (seconds (completionTime r)) of
           None \<Rightarrow> settleNow t (Throw (SyntaxError (seconds (completionTime r))))
         | Some s \<Rightarrow> watch (wakeAt t (s + maxClockSkew)) returnVoidWatcher_onFulfilled)
      else settleNow t (Throw (GuardMismatch ''undelegateWatcher'' ''onFulfilled'')))"
| "undelegateWatcher_onFulfilled sh maxClockSkew t response =
     settleNow t (Throw (GuardMismatch ''undelegateWatcher'' ''onFulfilled''))"

text \<open>
  The guard of \<open>extractFirstResultWatcher.onFulfilled\<close> is \<^verbatim>\<open>M.call([M.record()])\<close>: an array
  pattern with one element, so only a one-element array reaches the body (the results are
  records, which \<^verbatim>\<open>M.record()\<close> admits). The body asserts \<^verbatim>\<open>results.length === 1\<close> and
  returns \<^verbatim>\<open>results[0]\<close>.
\<close>

type_synonym copyRecord = "(string \<times> passable) list"

fun guard_extractFirstResult :: "copyRecord list \<Rightarrow> bool" where
  "guard_extractFirstResult [r] = True"
| "guard_extractFirstResult results = False"

text \<open>
  \<open>quote\<close> renders the results in the assertion's message; how the error library prints
  them does not matter here.
\<close>

definition extractFirstResult_body :: "(copyRecord list \<Rightarrow> string) \<Rightarrow> copyRecord list \<Rightarrow> copyRecord completion" where
  "extractFirstResult_body quote results =
     (if length results = 1 then Return (results ! 0)
      else Throw (Error (''expected exactly one result; got '' @ quote results)))"

definition extractFirstResultWatcher_onFulfilled ::
  "(copyRecord list \<Rightarrow> string) \<Rightarrow> int \<Rightarrow> copyRecord list \<Rightarrow> copyRecord async" where
  "extractFirstResultWatcher_onFulfilled quote t results =
     settleNow t
       (if guard_extractFirstResult results then extractFirstResult_body quote results
        else Throw (GuardMismatch ''extractFirstResultWatcher'' ''onFulfilled''))"

text \<open>
  \<open>getBalanceWatcher.onFulfilled(natAmount, denom)\<close>, guarded by
  \<^verbatim>\<open>M.call(AmountShape).optional(DenomShape).returns(DenomAmountShape)\<close>.
\<close>

definition getBalanceWatcher_onFulfilled ::
  "shapes \<Rightarrow> string \<Rightarrow> int \<Rightarrow> string \<times> int \<Rightarrow> (string \<times> int) async" where
  "getBalanceWatcher_onFulfilled sh dn t natAmount =
     settleNow t
       (if AmountShape sh natAmount \<and> DenomShape sh dn
           \<and> DenomAmountShape sh (dn, snd natAmount)
        then Return (dn, snd natAmount)
        else Throw (GuardMismatch ''getBalanceWatcher'' ''onFulfilled''))"

text \<open>
  \<open>transferWatcher.onFulfilled([{ transferChannel }, timeoutTimestamp], { opts, amount,
  destination })\<close>. Its guard wants a record and a natural number in the first argument
  and the shapes of \<^verbatim>\<open>typeGuards.js\<close> in the context. The body builds the transfer
  message, wraps it in a sender and calls the holder's \<open>sendThenWaitForAck\<close>; \<open>ack\<close> is the
  packet tools' reply.
\<close>

definition guard_transferWatcher ::
  "shapes \<Rightarrow> int \<Rightarrow> ibcMsgTransferOptions option \<Rightarrow> amountArg \<Rightarrow> chainAddress \<Rightarrow> bool" where
  "guard_transferWatcher sh ts opts amt destination =
     (M_nat sh ts
      \<and> ChainAddressShape sh (addressValue destination, encoding destination, chainId destination)
      \<and> (case opts of None \<Rightarrow> True | Some opt \<Rightarrow> IBCTransferOptionsShape sh opt)
      \<and> (case amt of DenomAmount d v \<Rightarrow> DenomAmountShape sh (d, v) | ErtpAmount b v \<Rightarrow> False))"

text \<open>The message the body builds from a denom amount \<^verbatim>\<open>{denom: d, value: v}\<close>.\<close>

definition transferMsg ::
  "state \<Rightarrow> connectionInfo \<Rightarrow> int \<Rightarrow> ibcMsgTransferOptions option \<Rightarrow> string \<Rightarrow> int \<Rightarrow> chainAddress
     \<Rightarrow> msgTransfer" where
  "transferMsg st info ts opts d v destination =
     \<lparr>sourcePort = portId (transferChannel info),
      sourceChannel = channelId (transferChannel info),
      token = \<lparr>denom = d, amount = String_bigint v\<rparr>,
      sender = addressValue (address st),
      receiver = addressValue destination,
      msgTransfer.timeoutHeight =
        (case opts of
           None \<Rightarrow> \<lparr>revisionHeight = 0, revisionNumber = 0\<rparr>
         | Some opt \<Rightarrow>
             (case ibcMsgTransferOptions.timeoutHeight opt of
                None \<Rightarrow> \<lparr>revisionHeight = 0, revisionNumber = 0\<rparr>
              | Some h \<Rightarrow> h)),
      msgTransfer.timeoutTimestamp = ts,
      msgTransfer.memo =
        (case opts of
           None \<Rightarrow> []
         | Some opt \<Rightarrow> (case ibcMsgTransferOptions.memo opt of None \<Rightarrow> [] | Some m \<Rightarrow> m))\<rparr>"

subsection \<open>holder\<close>

definition getAddress :: "state \<Rightarrow> chainAddress" where
  "getAddress st = address st"

definition sendThenWaitForAck ::
  "state \<Rightarrow> int \<Rightarrow> passable vow \<Rightarrow> packetSender \<Rightarrow> passable \<Rightarrow> passable async" where
  "sendThenWaitForAck st now ack sndr opts =
     watchOnly (E now (SendThenWaitForAck sndr opts) ack)"

definition transferWatcher_onFulfilled ::
  "shapes \<Rightarrow> state \<Rightarrow> passable vow \<Rightarrow> ibcMsgTransferOptions option \<Rightarrow> amountArg \<Rightarrow> chainAddress
     \<Rightarrow> int \<Rightarrow> connectionInfo \<times> int \<Rightarrow> passable async" where
  "transferWatcher_onFulfilled sh st ack opts amt destination t results =
     (if guard_transferWatcher sh (snd results) opts amt destination then
        (case amt of
           DenomAmount d v \<Rightarrow>
             sendThenWaitForAck st t ack
               (IBCTransferSender (transferMsg st (fst results) (snd results) opts d v destination))
               PUndefined
         | ErtpAmount b v \<Rightarrow>
             settleNow t (Throw (GuardMismatch ''transferWatcher'' ''onFulfilled'')))
      else settleNow t (Throw (GuardMismatch ''transferWatcher'' ''onFulfilled'')))"

definition getBalance ::
  "shapes \<Rightarrow> state \<Rightarrow> int \<Rightarrow> (string \<times> int) vow \<Rightarrow> string + string \<Rightarrow> (string \<times> int) async" where
  "getBalance sh st now reply denomArg =
     (case denomArg of
        Inl dn \<Rightarrow>
          watch (E now (AccountGetBalance None) reply) (getBalanceWatcher_onFulfilled sh dn)
      | Inr brand \<Rightarrow>
          watch (E now (AccountGetBalance (Some brand)) reply)
            (getBalanceWatcher_onFulfilled sh ''FIXME''))"

definition getBalances :: "state \<Rightarrow> int \<Rightarrow> (passable async) completion" where
  "getBalances st now = Return (asVow now (Throw (Error ''not yet implemented'')))"

definition delegate ::
  "(copyRecord list \<Rightarrow> string) \<Rightarrow> state \<Rightarrow> int \<Rightarrow> (copyRecord list) vow \<Rightarrow> string \<Rightarrow> string \<times> int
     \<Rightarrow> copyRecord async" where
  "delegate quote st now reply validator ertpAmount =
     watch
       (E now (ExecuteTx [MsgDelegate
           \<lparr>msgStaking.amount = \<lparr>denom = ''ubld'', amount = String_bigint (snd ertpAmount)\<rparr>,
            validatorAddress = validator,
            delegatorAddress = addressValue (address st)\<rparr>]) reply)
       (extractFirstResultWatcher_onFulfilled quote)"

definition undelegate ::
  "shapes \<Rightarrow> int \<Rightarrow> state \<Rightarrow> int \<Rightarrow> (msgUndelegateResponse list) vow \<Rightarrow> string \<Rightarrow> string \<times> int
     \<Rightarrow> passable async" where
  "undelegate sh maxClockSkew st now reply validator ertpAmount =
     watch
       (E now (ExecuteTx [MsgUndelegate
           \<lparr>msgStaking.amount = \<lparr>denom = ''ubld'', amount = String_bigint (snd ertpAmount)\<rparr>,
            validatorAddress = validator,
            delegatorAddress = addressValue (address st)\<rparr>]) reply)
       (undelegateWatcher_onFulfilled sh maxClockSkew)"

definition deposit :: "state \<Rightarrow> int \<Rightarrow> passable vow \<Rightarrow> passable \<Rightarrow> passable async" where
  "deposit st now reply payment =
     watch (E now (AccountDeposit payment) reply) returnVoidWatcher_onFulfilled"

definition withdraw :: "state \<Rightarrow> int \<Rightarrow> passable vow \<Rightarrow> string \<times> int \<Rightarrow> passable async" where
  "withdraw st now reply amt = watchOnly (E now (AccountWithdraw amt) reply)"

definition executeTx :: "state \<Rightarrow> int \<Rightarrow> (copyRecord list) vow \<Rightarrow> txMsg list \<Rightarrow> (copyRecord list) async" where
  "executeTx st now reply messages = watchOnly (E now (ExecuteTx messages) reply)"

text \<open>
  In \<open>send\<close> and \<open>sendAll\<close> the message, and so the coin conversion, is evaluated before
  \<^verbatim>\<open>executeTx\<close> is called; \<open>reply\<close> is the bridge's reply to that call.
\<close>

definition send :: "state \<Rightarrow> int \<Rightarrow> passable vow \<Rightarrow> chainAddress \<Rightarrow> amountArg \<Rightarrow> passable async" where
  "send st now reply toAccount amt =
     asVow now
       (case amountToCoin amt of
          Throw e \<Rightarrow> Throw e
        | Return c \<Rightarrow>
            Return (watch
              (E now (ExecuteTx [MsgSend \<lparr>amount = [c],
                                          toAddress = addressValue toAccount,
                                          fromAddress = addressValue (address st)\<rparr>]) reply)
              returnVoidWatcher_onFulfilled))"

definition sendAll :: "state \<Rightarrow> int \<Rightarrow> passable vow \<Rightarrow> chainAddress \<Rightarrow> amountArg list \<Rightarrow> passable async" where
  "sendAll st now reply toAccount amounts =
     asVow now
       (case mapAmountToCoin amounts of
          Throw e \<Rightarrow> Throw e
        | Return cs \<Rightarrow>
            Return (watch
              (E now (ExecuteTx [MsgSend \<lparr>amount = cs,
                                          toAddress = addressValue toAccount,
                                          fromAddress = addressValue (address st)\<rparr>]) reply)
              returnVoidWatcher_onFulfilled))"

text \<open>
  \<open>transfer(amount, destination, opts)\<close>. \<open>reg\<close> is the connection directory's content and
  \<open>ack\<close> the packet tools' reply to \<open>sendThenWaitForAck\<close>.
\<close>

definition timeoutTimestampVowOrValue :: "int \<Rightarrow> ibcMsgTransferOptions option \<Rightarrow> int async" where
  "timeoutTimestampVowOrValue now opts =
     (case (case opts of None \<Rightarrow> None | Some opt \<Rightarrow> ibcMsgTransferOptions.timeoutTimestamp opt) of
        Some ts \<Rightarrow> ([], Fulfilled now ts)
      | None \<Rightarrow>
          (case (case opts of None \<Rightarrow> None | Some opt \<Rightarrow> ibcMsgTransferOptions.timeoutHeight opt) of
             Some h \<Rightarrow> ([], Fulfilled now 0)
           | None \<Rightarrow> getTimeoutTimestampNS now))"

definition transfer ::
  "shapes \<Rightarrow> connections \<Rightarrow> state \<Rightarrow> int \<Rightarrow> passable vow \<Rightarrow> amountArg \<Rightarrow> chainAddress
     \<Rightarrow> ibcMsgTransferOptions option \<Rightarrow> passable async" where
  "transfer sh reg st now ack amt destination opts =
     asVow now
       (if hasBrand amt then Throw (Error ''ERTP Amounts not yet supported'')
        else Return
          (watch
             (allVows
                (watchOnly (getConnectionInfo reg now (chainId (address st)) (chainId destination)))
                (timeoutTimestampVowOrValue now opts))
             (transferWatcher_onFulfilled sh st ack opts amt destination)))"

definition transferSteps :: "state \<Rightarrow> int \<Rightarrow> amountArg \<Rightarrow> passable \<Rightarrow> (passable async) completion" where
  "transferSteps st now amt msg = Return (asVow now (Throw (Error ''not yet implemented'')))"

definition matchFirstPacket :: "state \<Rightarrow> int \<Rightarrow> passable vow \<Rightarrow> passable \<Rightarrow> passable async" where
  "matchFirstPacket st now reply patternV = watchOnly (E now (MatchFirstPacket patternV) reply)"

definition monitorTransfers :: "state \<Rightarrow> int \<Rightarrow> passable vow \<Rightarrow> passable \<Rightarrow> passable async" where
  "monitorTransfers st now reply tap = watchOnly (E now (MonitorTransfers tap) reply)"

text \<open>
  No holder method and no watcher of the account kit assigns to \<^verbatim>\<open>this.state\<close>: each one
  reads the state, and the state after the call is the state before it. A call of a
  holder method carries its arguments and the reply its collaborator will give.
\<close>

datatype holderOp =
    OpDeposit passable "passable vow"
  | OpWithdraw "string \<times> int" "passable vow"
  | OpDelegate string "string \<times> int" "(copyRecord list) vow"
  | OpUndelegate string "string \<times> int" "(msgUndelegateResponse list) vow"
  | OpSend chainAddress amountArg "passable vow"
  | OpSendAll chainAddress "amountArg list" "passable vow"
  | OpTransfer amountArg chainAddress "ibcMsgTransferOptions option" "passable vow"
  | OpGetBalance "string + string" "(string \<times> int) vow"
  | OpMonitorTransfers passable "passable vow"

record powers =
  guards :: shapes
  maxClockSkew :: int
  chainHub :: connections
  quote :: "copyRecord list \<Rightarrow> string"

fun holderCall :: "powers \<Rightarrow> state \<Rightarrow> int \<Rightarrow> holderOp \<Rightarrow> state \<times> call list" where
  "holderCall pw st now (OpDeposit payment reply) = (st, fst (deposit st now reply payment))"
| "holderCall pw st now (OpWithdraw amt reply) = (st, fst (withdraw st now reply amt))"
| "holderCall pw st now (OpDelegate validator amt reply) =
     (st, fst (delegate (quote pw) st now reply validator amt))"
| "holderCall pw st now (OpUndelegate validator amt reply) =
     (st, fst (undelegate (guards pw) (maxClockSkew pw) st now reply validator amt))"
| "holderCall pw st now (OpSend toAccount amt reply) = (st, fst (send st now reply toAccount amt))"
| "holderCall pw st now (OpSendAll toAccount amounts reply) =
     (st, fst (sendAll st now reply toAccount amounts))"
| "holderCall pw st now (OpTransfer amt destination opts ack) =
     (st, fst (transfer (guards pw) (chainHub pw) st now ack amt destination opts))"
| "holderCall pw st now (OpGetBalance denomArg reply) =
     (st, fst (getBalance (guards pw) st now reply denomArg))"
| "holderCall pw st now (OpMonitorTransfers tap reply) =
     (st, fst (monitorTransfers st now reply tap))"

text \<open>A run of holder calls, each at its own time; the calls made are collected in order.\<close>

fun holderCalls :: "powers \<Rightarrow> state \<Rightarrow> (int \<times> holderOp) list \<Rightarrow> state \<times> call list" where
  "holderCalls pw st [] = (st, [])"
| "holderCalls pw st ((now, op) # ops) =
     (case holderCall pw st now op of
        (st', cs) \<Rightarrow> (case holderCalls pw st' ops of (st'', ds) \<Rightarrow> (st'', cs @ ds)))"

section \<open>Patterns\<close>

text \<open>
  The limits of the pattern library (its defaults are not among the sources) are a
  parameter.
\<close>

record limits =
  stringLengthLimit :: nat
  numPropertiesLimit :: nat
  propertyNameLengthLimit :: nat
  arrayLengthLimit :: nat

fun isCopyRecord :: "passable \<Rightarrow> bool" where
  "isCopyRecord (PRecord ps) = True"
| "isCopyRecord p = False"

text \<open>
  Patterns are predicates on passables. \<^verbatim>\<open>M.string()\<close> bounds the length of the string;
  \<^verbatim>\<open>M.recordOf(keyPatt, valuePatt, limits)\<close> wants a record with at most
  \<open>numPropertiesLimit\<close> properties, each name within \<open>propertyNameLengthLimit\<close> and matching
  \<open>keyPatt\<close>, each value matching \<open>valuePatt\<close>; a record used as a pattern matches the equal
  record only.
\<close>

definition M_string :: "limits \<Rightarrow> string \<Rightarrow> bool" where
  "M_string lim k = (length k \<le> stringLengthLimit lim)"

fun M_recordOf :: "(string \<Rightarrow> bool) \<Rightarrow> (passable \<Rightarrow> bool) \<Rightarrow> limits \<Rightarrow> passable \<Rightarrow> bool" where
  "M_recordOf keyPatt valuePatt lim (PRecord ps) =
     (length ps \<le> numPropertiesLimit lim
      \<and> list_all (\<lambda>kv. length (fst kv) \<le> propertyNameLengthLimit lim
                         \<and> keyPatt (fst kv) \<and> valuePatt (snd kv)) ps)"
| "M_recordOf keyPatt valuePatt lim specimen = False"

definition M_and :: "(passable \<Rightarrow> bool) \<Rightarrow> (passable \<Rightarrow> bool) \<Rightarrow> passable \<Rightarrow> bool" where
  "M_and p q specimen = (p specimen \<and> q specimen)"

definition M_not :: "(passable \<Rightarrow> bool) \<Rightarrow> passable \<Rightarrow> bool" where
  "M_not p specimen = (\<not> p specimen)"

definition emptyRecordPattern :: "passable \<Rightarrow> bool" where
  "emptyRecordPattern specimen = (specimen = PRecord [])"

text \<open>
  \<^verbatim>\<open>M.record()\<close> without limits is the record-of-anything pattern under the default limits,
  and \<^verbatim>\<open>M.arrayOf(patt)\<close> wants an array within \<open>arrayLengthLimit\<close> whose elements all match.
\<close>

definition M_record :: "limits \<Rightarrow> passable \<Rightarrow> bool" where
  "M_record lim = M_recordOf (\<lambda>k. True) (\<lambda>v. True) lim"

definition M_arrayOf :: "(passable \<Rightarrow> bool) \<Rightarrow> limits \<Rightarrow> passable list \<Rightarrow> bool" where
  "M_arrayOf patt lim xs = (length xs \<le> arrayLengthLimit lim \<and> list_all patt xs)"

section \<open>The local chain facade\<close>

record facadeState =
  localChainInfo :: passable
  vbankAssets :: "passable list option"

definition facadeInit :: "passable \<Rightarrow> facadeState" where
  "facadeInit info = \<lparr>localChainInfo = info, vbankAssets = None\<rparr>"

text \<open>How a future has settled, when the time of settlement is of no interest.\<close>

datatype 'a outcome =
    Fulfils 'a
  | Rejects error

text \<open>
  \<open>getVBankAssetInfo()\<close> reads the state and writes nothing. A defined \<open>vbankAssets\<close> (an
  array, so truthy even when empty) is returned at once; otherwise the method sends
  \<^verbatim>\<open>E(E(agoricNames).lookup('vbankAsset')).values()\<close> and returns the watch of that lookup
  with the \<open>vbankAssetValuesWatcher\<close>.
\<close>

datatype vbankRequest =
    ReturnCached "passable list"
  | WatchLookup

definition getVBankAssetInfo :: "facadeState \<Rightarrow> vbankRequest" where
  "getVBankAssetInfo st =
     (case vbankAssets st of
        Some assets \<Rightarrow> ReturnCached assets
      | None \<Rightarrow> WatchLookup)"

text \<open>
  \<open>vbankAssetValuesWatcher.onFulfilled(assets)\<close>, guarded by \<^verbatim>\<open>M.arrayOf(M.record())\<close>, runs
  when the lookup fulfils: only then is \<open>vbankAssets\<close> assigned, and the list is returned.
\<close>

definition guard_vbankAssetValues :: "limits \<Rightarrow> passable list \<Rightarrow> bool" where
  "guard_vbankAssetValues lim assets = M_arrayOf (M_record lim) lim assets"

definition vbankAssetValuesWatcher_onFulfilled ::
  "limits \<Rightarrow> facadeState \<Rightarrow> passable list \<Rightarrow> facadeState \<times> (passable list) outcome" where
  "vbankAssetValuesWatcher_onFulfilled lim st assets =
     (if guard_vbankAssetValues lim assets
      then (st\<lparr>vbankAssets := Some assets\<rparr>, Fulfils assets)
      else (st, Rejects (GuardMismatch ''vbankAssetValuesWatcher'' ''onFulfilled'')))"

text \<open>
  Calls of the method and replies of the name hub come in any order, so the facade is run
  over a sequence of events. The world holds the kit's state, the number of lookups sent,
  the lookups still unanswered, the future returned by each call (in call order) and the
  calls made on the name hub. A lookup is known by its number; the name hub answers each
  lookup at most once, and its replies may come in any order.
\<close>

datatype future =
    Settled "(passable list) outcome"
  | Awaits nat

record facadeWorld =
  kit :: facadeState
  issued :: nat
  unanswered :: "nat list"
  futures :: "future list"
  hubCalls :: "call list"

datatype facadeEvent =
    CallGetVBankAssetInfo
  | NameHubReply nat "(passable list) outcome"

fun resolve :: "nat \<Rightarrow> (passable list) outcome \<Rightarrow> future \<Rightarrow> future" where
  "resolve k out (Awaits j) = (if j = k then Settled out else Awaits j)"
| "resolve k out (Settled res) = Settled res"

fun facadeStep :: "limits \<Rightarrow> facadeWorld \<Rightarrow> facadeEvent \<Rightarrow> facadeWorld" where
  "facadeStep lim w CallGetVBankAssetInfo =
     (case getVBankAssetInfo (kit w) of
        ReturnCached assets \<Rightarrow> w\<lparr>futures := futures w @ [Settled (Fulfils assets)]\<rparr>
      | WatchLookup \<Rightarrow>
          w\<lparr>issued := issued w + 1,
            unanswered := unanswered w @ [issued w],
            futures := futures w @ [Awaits (issued w)],
            hubCalls := hubCalls w @ [NameHubLookup ''vbankAsset'', NameHubValues]\<rparr>)"
| "facadeStep lim w (NameHubReply k (Rejects e)) =
     (if k \<in> set (unanswered w)
      then w\<lparr>unanswered := removeAll k (unanswered w),
             futures := map (resolve k (Rejects e)) (futures w)\<rparr>
      else w)"
| "facadeStep lim w (NameHubReply k (Fulfils assets)) =
     (if k \<in> set (unanswered w)
      then w\<lparr>kit := fst (vbankAssetValuesWatcher_onFulfilled lim (kit w) assets),
             unanswered := removeAll k (unanswered w),
             futures :=
               map (resolve k (snd (vbankAssetValuesWatcher_onFulfilled lim (kit w) assets)))
                 (futures w)\<rparr>
      else w)"

definition facadeRun :: "limits \<Rightarrow> facadeWorld \<Rightarrow> facadeEvent list \<Rightarrow> facadeWorld" where
  "facadeRun lim w es = foldl (facadeStep lim) w es"

definition facadeStart :: "passable \<Rightarrow> facadeWorld" where
  "facadeStart info =
     \<lparr>kit = facadeInit info, issued = 0, unanswered = [], futures = [], hubCalls = []\<rparr>"

section \<open>The send-anywhere contract's proposal shape\<close>

text \<open>
  \<open>amountShape\<close> stands for the ERTP package's \<^verbatim>\<open>AmountShape\<close> and \<open>defaults\<close> for the pattern
  library's default limits, which \<^verbatim>\<open>{ numPropertiesLimit: 1 }\<close> overrides in one place.
\<close>

definition SingleAmountRecord :: "limits \<Rightarrow> (passable \<Rightarrow> bool) \<Rightarrow> passable \<Rightarrow> bool" where
  "SingleAmountRecord defaults amountShape =
     M_and
       (M_recordOf (M_string defaults) amountShape (defaults\<lparr>numPropertiesLimit := 1\<rparr>))
       (M_not emptyRecordPattern)"

section \<open>The unit test's scenario\<close>

text \<open>
  The values the account kit's unit test works with: an account on \<^verbatim>\<open>agoriclocal\<close>, a
  registered connection to \<^verbatim>\<open>cosmoshub-4\<close>, none to \<^verbatim>\<open>fakenet\<close>, and shapes and limits that
  admit them.
\<close>

definition permissiveShapes :: shapes where
  "permissiveShapes =
     \<lparr>AmountShape = (\<lambda>a. True), DenomShape = (\<lambda>d. True), DenomAmountShape = (\<lambda>a. True),
      ChainAddressShape = (\<lambda>a. True), IBCTransferOptionsShape = (\<lambda>opt. True),
      TimestampProtoShape = (\<lambda>ts. True), withinDecimalDigitsLimit = (\<lambda>n. True)\<rparr>"

definition agoricLocalAddress :: chainAddress where
  "agoricLocalAddress =
     \<lparr>addressValue = ''agoric1fakeLCAAddress'', encoding = ''bech32'', chainId = ''agoriclocal''\<rparr>"

definition testAccount :: state where
  "testAccount = init id id ''LCA'' agoricLocalAddress ''storageNode''"

definition cosmosDestination :: chainAddress where
  "cosmosDestination =
     \<lparr>addressValue = ''cosmos1pleab'', encoding = ''bech32'', chainId = ''cosmoshub-4''\<rparr>"

definition unknownDestination :: chainAddress where
  "unknownDestination =
     \<lparr>addressValue = ''fakenet1pleab'', encoding = ''bech32'', chainId = ''fakenet''\<rparr>"

definition toAddress1 :: chainAddress where
  "toAddress1 =
     \<lparr>addressValue = ''agoric1EOAAccAddress'', encoding = ''bech32'', chainId = ''agoriclocal''\<rparr>"

definition testConnections :: connections where
  "testConnections =
     [(''agoriclocal'', ''cosmoshub-4'') \<mapsto>
        \<lparr>transferChannel = \<lparr>portId = ''transfer'', channelId = ''channel-1''\<rparr>\<rparr>]"

definition noDetails :: "copyRecord list \<Rightarrow> string" where
  "noDetails results = ''(results)''"

definition testPowers :: powers where
  "testPowers =
     \<lparr>guards = permissiveShapes, maxClockSkew = 600, chainHub = testConnections,
      quote = noDetails\<rparr>"

definition sampleLimits :: limits where
  "sampleLimits =
     \<lparr>stringLengthLimit = 100000, numPropertiesLimit = 80, propertyNameLengthLimit = 100,
      arrayLengthLimit = 10000\<rparr>"

definition unbondingReply :: msgUndelegateResponse where
  "unbondingReply = \<lparr>completionTime = \<lparr>seconds = ''1814400'', nanos = 0\<rparr>\<rparr>"

definition anyAmountShape :: "passable \<Rightarrow> bool" where
  "anyAmountShape v = isCopyRecord v"

definition bldAssets :: "passable list" where
  "bldAssets = [PRecord [(''denom'', PString ''ubld'')]]"

definition bldAndIstAssets :: "passable list" where
  "bldAndIstAssets =
     [PRecord [(''denom'', PString ''ubld'')], PRecord [(''denom'', PString ''uist'')]]"

section \<open>Auxiliary facts\<close>

lemma startsWith_self: "startsWith s s"
  by (induction s) auto

lemma includesStr_self: "includesStr s s"
  by (cases s) (auto simp: startsWith_self)

lemma mapAmountToCoin_brand:
  "list_ex (\<lambda>a. \<not> hasDenom a) amounts \<Longrightarrow>
     mapAmountToCoin amounts = Throw (Error ''Brands not currently supported.'')"
proof (induction amounts)
  case Nil
  then show ?case by simp
next
  case (Cons a as)
  show ?case
  proof (cases a)
    case (ErtpAmount b v)
    then show ?thesis by simp
  next
    case (DenomAmount d v)
    show ?thesis
    proof (cases "list_ex (\<lambda>a. \<not> hasDenom a) as")
      case True
      then have "mapAmountToCoin as = Throw (Error ''Brands not currently supported.'')"
        by (rule Cons.IH)
      then show ?thesis using DenomAmount by simp
    next
      case False
      then show ?thesis using Cons.prems DenomAmount by simp
    qed
  qed
qed

lemma mapAmountToCoin_denoms:
  "mapAmountToCoin (map (\<lambda>dv. DenomAmount (fst dv) (snd dv)) dvs) =
     Return (map (\<lambda>dv. \<lparr>denom = fst dv, amount = String_bigint (snd dv)\<rparr>) dvs)"
  by (induction dvs) simp_all

lemma after_after: "after t (after t v) = after t v"
  by (cases v) simp_all

lemma holderCall_state: "fst (holderCall pw st now op) = st"
  by (cases op) simp_all

lemma holderCalls_state: "fst (holderCalls pw st ops) = st"
proof (induction ops arbitrary: st)
  case Nil
  show ?case by simp
next
  case (Cons x ops)
  obtain now op where x: "x = (now, op)"
    by (cases x)
  obtain st' cs where h: "holderCall pw st now op = (st', cs)"
    by (cases "holderCall pw st now op")
  have "st' = st"
    using holderCall_state [of pw st now op] h by simp
  moreover obtain st'' ds where r: "holderCalls pw st' ops = (st'', ds)"
    by (cases "holderCalls pw st' ops")
  moreover have "st'' = st'"
    using Cons.IH [of st'] r by simp
  ultimately show ?case using x h by simp
qed

lemma StringToBigInt_unbonding: "StringToBigInt ''1814400'' = Some 1814400"
  by (simp add: StringToBigInt_def trim_def isStrWhiteSpaceChar_def parseDigits_def
      digitValue_def)

lemma facadeStep_cached:
  assumes "vbankAssets (kit w) = Some assets" and "unanswered w = []"
  shows "kit (facadeStep lim w e) = kit w"
    and "unanswered (facadeStep lim w e) = []"
    and "hubCalls (facadeStep lim w e) = hubCalls w"
    and "futures (facadeStep lim w e) =
           futures w @ (if e = CallGetVBankAssetInfo then [Settled (Fulfils assets)] else [])"
proof -
  show "kit (facadeStep lim w e) = kit w"
  proof (cases e)
    case CallGetVBankAssetInfo
    then show ?thesis using assms by (simp add: getVBankAssetInfo_def)
  next
    case (NameHubReply k out)
    then show ?thesis using assms by (cases out) simp_all
  qed
  show "unanswered (facadeStep lim w e) = []"
  proof (cases e)
    case CallGetVBankAssetInfo
    then show ?thesis using assms by (simp add: getVBankAssetInfo_def)
  next
    case (NameHubReply k out)
    then show ?thesis using assms by (cases out) simp_all
  qed
  show "hubCalls (facadeStep lim w e) = hubCalls w"
  proof (cases e)
    case CallGetVBankAssetInfo
    then show ?thesis using assms by (simp add: getVBankAssetInfo_def)
  next
    case (NameHubReply k out)
    then show ?thesis using assms by (cases out) simp_all
  qed
  show "futures (facadeStep lim w e) =
           futures w @ (if e = CallGetVBankAssetInfo then [Settled (Fulfils assets)] else [])"
  proof (cases e)
    case CallGetVBankAssetInfo
    then show ?thesis using assms by (simp add: getVBankAssetInfo_def)
  next
    case (NameHubReply k out)
    then show ?thesis using assms by (cases out) simp_all
  qed
qed

lemma facadeRun_cached:
  assumes "vbankAssets (kit w) = Some assets" and "unanswered w = []"
  shows "futures (facadeRun lim w es)
           = futures w @ replicate (count_list es CallGetVBankAssetInfo) (Settled (Fulfils assets))
         \<and> hubCalls (facadeRun lim w es) = hubCalls w
         \<and> kit (facadeRun lim w es) = kit w"
  using assms
proof (induction es arbitrary: w)
  case Nil
  then show ?case by (simp add: facadeRun_def)
next
  case (Cons e es)
  let ?w = "facadeStep lim w e"
  have s: "kit ?w = kit w" "unanswered ?w = []" "hubCalls ?w = hubCalls w"
      "futures ?w = futures w @ (if e = CallGetVBankAssetInfo then [Settled (Fulfils assets)] else [])"
    using facadeStep_cached [OF Cons.prems] by simp_all
  have c: "vbankAssets (kit ?w) = Some assets"
    using s(1) Cons.prems(1) by simp
  have ih: "futures (facadeRun lim ?w es)
           = futures ?w @ replicate (count_list es CallGetVBankAssetInfo) (Settled (Fulfils assets))
         \<and> hubCalls (facadeRun lim ?w es) = hubCalls ?w
         \<and> kit (facadeRun lim ?w es) = kit ?w"
    using c s(2) by (rule Cons.IH)
  have r: "facadeRun lim w (e # es) = facadeRun lim ?w es"
    by (simp add: facadeRun_def)
  show ?case
    unfolding r using ih s by (simp add: replicate_append_same)
qed

section \<open>The claims\<close>

text \<open>
  C1. An \<open>undelegate\<close> call whose bridge reply carries a completion time (one response, with
  seconds that \<^verbatim>\<open>BigInt\<close> reads as \<open>s\<close>) issues the undelegate message, then asks the timer
  to wake at \<open>s + maxClockSkew\<close>, and its future fulfils with void. It has settled at timer
  time \<open>t\<close> exactly when \<open>t\<close> has reached the call, the bridge's acknowledgement and the wake
  time: never before \<open>s + maxClockSkew\<close>, and not before the acknowledgement either.
\<close>

theorem undelegate_waits_for_completion:
  assumes "TimestampProtoShape sh (seconds (completionTime r), nanos (completionTime r))"
      and "StringToBigInt (seconds (completionTime r)) = Some s"
  shows "undelegate sh skew st now (Fulfilled tAck [r]) validator ertpAmount =
           ([ExecuteTx [MsgUndelegate
               \<lparr>msgStaking.amount = \<lparr>denom = ''ubld'', amount = String_bigint (snd ertpAmount)\<rparr>,
                validatorAddress = validator,
                delegatorAddress = addressValue (address st)\<rparr>],
             WakeAt (s + skew)],
            Fulfilled (max (max now tAck) (s + skew)) PUndefined)
       \<and> (\<forall>t. settledBy (snd (undelegate sh skew st now (Fulfilled tAck [r]) validator ertpAmount)) t
               \<longleftrightarrow> now \<le> t \<and> tAck \<le> t \<and> s + skew \<le> t)"
proof -
  have w: "undelegateWatcher_onFulfilled sh skew u [r] =
             ([WakeAt (s + skew)], Fulfilled (max u (s + skew)) PUndefined)" for u
    using assms by (simp add: wakeAt_def E_def returnVoidWatcher_onFulfilled_def)
  have u: "undelegate sh skew st now (Fulfilled tAck [r]) validator ertpAmount =
           ([ExecuteTx [MsgUndelegate
               \<lparr>msgStaking.amount = \<lparr>denom = ''ubld'', amount = String_bigint (snd ertpAmount)\<rparr>,
                validatorAddress = validator,
                delegatorAddress = addressValue (address st)\<rparr>],
             WakeAt (s + skew)],
            Fulfilled (max (max now tAck) (s + skew)) PUndefined)"
    by (simp add: undelegate_def E_def w del: undelegateWatcher_onFulfilled.simps)
  show ?thesis
    unfolding u by (auto simp: settledBy_def)
qed

theorem undelegate_waits_for_completion_witness:
  "TimestampProtoShape permissiveShapes
     (seconds (completionTime unbondingReply), nanos (completionTime unbondingReply))
   \<and> StringToBigInt (seconds (completionTime unbondingReply)) = Some 1814400
   \<and> snd (undelegate permissiveShapes 600 testAccount 0 (Fulfilled 5 [unbondingReply])
            ''agoric1validator1'' (''BLD'', 999)) = Fulfilled 1815000 PUndefined
   \<and> \<not> settledBy (snd (undelegate permissiveShapes 600 testAccount 0
            (Fulfilled 5 [unbondingReply]) ''agoric1validator1'' (''BLD'', 999))) 1814999
   \<and> settledBy (snd (undelegate permissiveShapes 600 testAccount 0
            (Fulfilled 5 [unbondingReply]) ''agoric1validator1'' (''BLD'', 999))) 1815000"
proof -
  have g: "TimestampProtoShape permissiveShapes
     (seconds (completionTime unbondingReply), nanos (completionTime unbondingReply))"
    by (simp add: permissiveShapes_def)
  have b: "StringToBigInt (seconds (completionTime unbondingReply)) = Some 1814400"
    by (simp add: unbondingReply_def StringToBigInt_unbonding)
  show ?thesis
    using g b
      undelegate_waits_for_completion [OF g b, of 600 testAccount 0 5 "''agoric1validator1''"
        "(''BLD'', 999)"]
    by (simp add: settledBy_def)
qed

text \<open>
  C2, as stated for every transfer call with no registered connection, fails for an ERTP
  amount: a transfer of an amount with a \<^verbatim>\<open>brand\<close> property to \<^verbatim>\<open>fakenet\<close>, to which no
  connection is registered, is rejected by the brand check before the connection is looked
  up; the rejection does not mention the connection, and no call is made.
\<close>

theorem transfer_brand_amount_counterexample:
  "transfer permissiveShapes testConnections testAccount 0 Pending (ErtpAmount ''BLD'' 1)
      unknownDestination None
     = ([], Rejected 0 (Error ''ERTP Amounts not yet supported''))
   \<and> testConnections (chainId (address testAccount), chainId unknownDestination) = None
   \<and> \<not> rejectionIncludes
         (snd (transfer permissiveShapes testConnections testAccount 0 Pending
                 (ErtpAmount ''BLD'' 1) unknownDestination None))
         ''connection not found: agoriclocal<->fakenet''"
  by (simp add: transfer_def testConnections_def testAccount_def init_def
      agoricLocalAddress_def unknownDestination_def)

text \<open>
  C2 (amended). For a transfer of a denom amount (no \<^verbatim>\<open>brand\<close> property) between chains with
  no registered connection, the future rejects with the directory's message
  \<^verbatim>\<open>connection not found: src<->dst\<close>; the only calls made are the connection lookup and,
  when no timeout was given, the timestamp helper's: the transfer watcher does not run and
  nothing is sent.
\<close>

theorem transfer_unknown_connection:
  assumes "\<not> hasBrand amt"
      and "reg (chainId (address st), chainId destination) = None"
  shows "snd (transfer sh reg st now ack amt destination opts) =
           Rejected now
             (Error (''connection not found: '' @ chainId (address st) @ ''<->''
                       @ chainId destination))
       \<and> rejectionIncludes (snd (transfer sh reg st now ack amt destination opts))
           (''connection not found: '' @ chainId (address st) @ ''<->'' @ chainId destination)
       \<and> fst (transfer sh reg st now ack amt destination opts) =
           GetConnectionInfo (chainId (address st)) (chainId destination)
             # fst (timeoutTimestampVowOrValue now opts)
       \<and> set (fst (timeoutTimestampVowOrValue now opts)) \<subseteq> {GetTimeoutTimestampNS}"
proof -
  obtain cs v where tv: "timeoutTimestampVowOrValue now opts = (cs, v)"
    by (cases "timeoutTimestampVowOrValue now opts")
  have v: "\<exists>ts. v = Fulfilled now ts" and cs: "set cs \<subseteq> {GetTimeoutTimestampNS}"
    using tv
    by (auto simp: timeoutTimestampVowOrValue_def getTimeoutTimestampNS_def E_def
          split: option.splits)
  then obtain ts where v': "v = Fulfilled now ts"
    by auto
  have t: "transfer sh reg st now ack amt destination opts =
     (GetConnectionInfo (chainId (address st)) (chainId destination) # cs,
      Rejected now
        (Error (''connection not found: '' @ chainId (address st) @ ''<->''
                  @ chainId destination)))"
    using assms by (simp add: transfer_def watchOnly_def getConnectionInfo_def E_def tv v')
  show ?thesis
    unfolding t using cs tv by (simp add: includesStr_self)
qed

theorem transfer_unknown_connection_witness:
  "\<not> hasBrand (DenomAmount ''ubld'' 1)
   \<and> testConnections (chainId (address testAccount), chainId unknownDestination) = None
   \<and> transfer permissiveShapes testConnections testAccount 0 Pending (DenomAmount ''ubld'' 1)
        unknownDestination None
       = ([GetConnectionInfo ''agoriclocal'' ''fakenet'', GetTimeoutTimestampNS],
          Rejected 0 (Error ''connection not found: agoriclocal<->fakenet''))"
proof -
  have a: "\<not> hasBrand (DenomAmount ''ubld'' 1)"
    by simp
  have b: "testConnections (chainId (address testAccount), chainId unknownDestination) = None"
    by (simp add: testConnections_def testAccount_def init_def agoricLocalAddress_def
        unknownDestination_def)
  have c: "timeoutTimestampVowOrValue 0 None = ([GetTimeoutTimestampNS], Fulfilled 0 300000000000)"
    by (simp add: timeoutTimestampVowOrValue_def getTimeoutTimestampNS_def E_def)
  have d: "chainId (address testAccount) = ''agoriclocal''"
      "chainId unknownDestination = ''fakenet''"
    by (simp_all add: testAccount_def init_def agoricLocalAddress_def unknownDestination_def)
  show ?thesis
    using a b
      transfer_unknown_connection [where amt = "DenomAmount ''ubld'' 1"
        and reg = testConnections and st = testAccount and destination = unknownDestination
        and sh = permissiveShapes and now = 0 and ack = Pending and opts = None]
    by (simp add: c d prod_eq_iff)
qed




text \<open>
  C4. A \<open>send\<close> whose amount has no \<^verbatim>\<open>denom\<close> property, and a \<open>sendAll\<close> with such an amount
  anywhere in its list, is rejected with \<^verbatim>\<open>Brands not currently supported.\<close>; no call is
  made on the bridge (or on any collaborator) and the kit's state is as before.
\<close>

theorem send_rejects_brand_amounts:
  "(\<not> hasDenom amt \<longrightarrow>
      send st now reply toAccount amt
        = ([], Rejected now (Error ''Brands not currently supported.''))
      \<and> holderCall pw st now (OpSend toAccount amt reply) = (st, []))
   \<and> (list_ex (\<lambda>a. \<not> hasDenom a) amounts \<longrightarrow>
      sendAll st now reply toAccount amounts
        = ([], Rejected now (Error ''Brands not currently supported.''))
      \<and> holderCall pw st now (OpSendAll toAccount amounts reply) = (st, []))"
proof -
  have a: "send st now reply toAccount amt
             = ([], Rejected now (Error ''Brands not currently supported.''))"
    if "\<not> hasDenom amt"
    using that by (cases amt) (simp_all add: send_def)
  have b: "sendAll st now reply toAccount amounts
             = ([], Rejected now (Error ''Brands not currently supported.''))"
    if "list_ex (\<lambda>a. \<not> hasDenom a) amounts"
    using mapAmountToCoin_brand [OF that] by (simp add: sendAll_def)
  show ?thesis
    using a b by simp
qed

theorem send_rejects_brand_amounts_witness:
  "\<not> hasDenom (ErtpAmount ''BLD'' 10)
   \<and> send testAccount 0 (Fulfilled 1 PUndefined) toAddress1 (ErtpAmount ''BLD'' 10)
       = ([], Rejected 0 (Error ''Brands not currently supported.''))
   \<and> list_ex (\<lambda>a. \<not> hasDenom a) [DenomAmount ''ubld'' 10, ErtpAmount ''IST'' 10]
   \<and> sendAll testAccount 0 (Fulfilled 1 PUndefined) toAddress1
        [DenomAmount ''ubld'' 10, ErtpAmount ''IST'' 10]
       = ([], Rejected 0 (Error ''Brands not currently supported.''))
   \<and> holderCall testPowers testAccount 0
        (OpSendAll toAddress1 [DenomAmount ''ubld'' 10, ErtpAmount ''IST'' 10]
           (Fulfilled 1 PUndefined))
       = (testAccount, [])"
  using send_rejects_brand_amounts [of "ErtpAmount ''BLD'' 10" testAccount 0
      "Fulfilled 1 PUndefined" toAddress1 testPowers
      "[DenomAmount ''ubld'' 10, ErtpAmount ''IST'' 10]"]
  by simp

text \<open>
  C5. A transfer that reaches the construction of the message (the connection is
  registered and the watcher's guard admits the arguments) looks the connection up, asks
  the timestamp helper only when neither timeout was given, and sends one packet: a
  transfer message with the connection's port and channel, the token
  \<^verbatim>\<open>{amount: String(value), denom}\<close>, the account's address as sender, the destination's as
  receiver, the caller's timeout height or else \<^verbatim>\<open>{0, 0}\<close>, the caller's memo or else the
  empty string, and as timeout timestamp the caller's if given, else 0 if a timeout height
  was given, else the helper's five minutes from now.
\<close>

theorem transfer_builds_message:
  assumes "reg (chainId (address st), chainId destination) = Some info"
      and "ts = (case Option.bind opts ibcMsgTransferOptions.timeoutTimestamp of
                   Some x \<Rightarrow> x
                 | None \<Rightarrow>
                     (case Option.bind opts ibcMsgTransferOptions.timeoutHeight of
                        Some h \<Rightarrow> 0
                      | None \<Rightarrow> (now + 5 * 60) * 1000000000))"
      and "guard_transferWatcher sh ts opts (DenomAmount d v) destination"
  shows "transfer sh reg st now ack (DenomAmount d v) destination opts =
           (GetConnectionInfo (chainId (address st)) (chainId destination)
            # (if Option.bind opts ibcMsgTransferOptions.timeoutTimestamp = None
                  \<and> Option.bind opts ibcMsgTransferOptions.timeoutHeight = None
               then [GetTimeoutTimestampNS] else [])
            @ [SendThenWaitForAck
                 (IBCTransferSender
                    \<lparr>sourcePort = portId (transferChannel info),
                     sourceChannel = channelId (transferChannel info),
                     token = \<lparr>denom = d, amount = String_bigint v\<rparr>,
                     sender = addressValue (address st),
                     receiver = addressValue destination,
                     msgTransfer.timeoutHeight =
                       (case Option.bind opts ibcMsgTransferOptions.timeoutHeight of
                          Some h \<Rightarrow> h
                        | None \<Rightarrow> \<lparr>revisionHeight = 0, revisionNumber = 0\<rparr>),
                     msgTransfer.timeoutTimestamp = ts,
                     msgTransfer.memo =
                       (case Option.bind opts ibcMsgTransferOptions.memo of
                          Some m \<Rightarrow> m
                        | None \<Rightarrow> [])\<rparr>)
                 PUndefined],
            after now ack)"
proof -
  have tv: "snd (timeoutTimestampVowOrValue now opts) = Fulfilled now ts"
       "fst (timeoutTimestampVowOrValue now opts) =
          (if Option.bind opts ibcMsgTransferOptions.timeoutTimestamp = None
              \<and> Option.bind opts ibcMsgTransferOptions.timeoutHeight = None
           then [GetTimeoutTimestampNS] else [])"
    using assms(2)
    by (auto simp: timeoutTimestampVowOrValue_def getTimeoutTimestampNS_def E_def
          split: option.splits)
  obtain cs where tv': "timeoutTimestampVowOrValue now opts = (cs, Fulfilled now ts)"
      and cs: "cs = (if Option.bind opts ibcMsgTransferOptions.timeoutTimestamp = None
              \<and> Option.bind opts ibcMsgTransferOptions.timeoutHeight = None
           then [GetTimeoutTimestampNS] else [])"
    using tv by (cases "timeoutTimestampVowOrValue now opts") simp
  have m: "transferMsg st info ts opts d v destination =
             \<lparr>sourcePort = portId (transferChannel info),
              sourceChannel = channelId (transferChannel info),
              token = \<lparr>denom = d, amount = String_bigint v\<rparr>,
              sender = addressValue (address st),
              receiver = addressValue destination,
              msgTransfer.timeoutHeight =
                (case Option.bind opts ibcMsgTransferOptions.timeoutHeight of
                   Some h \<Rightarrow> h
                 | None \<Rightarrow> \<lparr>revisionHeight = 0, revisionNumber = 0\<rparr>),
              msgTransfer.timeoutTimestamp = ts,
              msgTransfer.memo =
                (case Option.bind opts ibcMsgTransferOptions.memo of
                   Some m \<Rightarrow> m
                 | None \<Rightarrow> [])\<rparr>"
    by (simp add: transferMsg_def split: option.splits)
  have w: "transferWatcher_onFulfilled sh st ack opts (DenomAmount d v) destination now (info, ts)
             = ([SendThenWaitForAck
                  (IBCTransferSender (transferMsg st info ts opts d v destination))
                  PUndefined], after now ack)"
    using assms(3)
    by (simp add: transferWatcher_onFulfilled_def sendThenWaitForAck_def watchOnly_def E_def)
  have "transfer sh reg st now ack (DenomAmount d v) destination opts =
          (GetConnectionInfo (chainId (address st)) (chainId destination) # cs
           @ [SendThenWaitForAck
                (IBCTransferSender (transferMsg st info ts opts d v destination))
                PUndefined], after now ack)"
    using assms(1)
    by (simp add: transfer_def watchOnly_def getConnectionInfo_def tv' w after_after)
  then show ?thesis
    by (simp only: m cs)
qed

theorem transfer_builds_message_witness:
  "testConnections (chainId (address testAccount), chainId cosmosDestination)
     = Some \<lparr>transferChannel = \<lparr>portId = ''transfer'', channelId = ''channel-1''\<rparr>\<rparr>
   \<and> guard_transferWatcher permissiveShapes 300000000000 None (DenomAmount ''ubld'' 10)
        cosmosDestination
   \<and> transfer permissiveShapes testConnections testAccount 0 Pending (DenomAmount ''ubld'' 10)
        cosmosDestination None
     = ([GetConnectionInfo ''agoriclocal'' ''cosmoshub-4'', GetTimeoutTimestampNS,
         SendThenWaitForAck
           (IBCTransferSender
              \<lparr>sourcePort = ''transfer'', sourceChannel = ''channel-1'',
               token = \<lparr>denom = ''ubld'', amount = ''10''\<rparr>,
               sender = ''agoric1fakeLCAAddress'', receiver = ''cosmos1pleab'',
               msgTransfer.timeoutHeight = \<lparr>revisionHeight = 0, revisionNumber = 0\<rparr>,
               msgTransfer.timeoutTimestamp = 300000000000,
               msgTransfer.memo = []\<rparr>)
           PUndefined],
        Pending)"
proof -
  have a: "testConnections (chainId (address testAccount), chainId cosmosDestination)
     = Some \<lparr>transferChannel = \<lparr>portId = ''transfer'', channelId = ''channel-1''\<rparr>\<rparr>"
    by (simp add: testConnections_def testAccount_def init_def agoricLocalAddress_def
        cosmosDestination_def)
  have b: "(300000000000 :: int) =
     (case Option.bind None ibcMsgTransferOptions.timeoutTimestamp of
        Some x \<Rightarrow> x
      | None \<Rightarrow>
          (case Option.bind None ibcMsgTransferOptions.timeoutHeight of
             Some h \<Rightarrow> 0
           | None \<Rightarrow> (0 + 5 * 60) * 1000000000))"
    by simp
  have c: "guard_transferWatcher permissiveShapes 300000000000 None (DenomAmount ''ubld'' 10)
        cosmosDestination"
    by (simp add: guard_transferWatcher_def M_nat_def permissiveShapes_def)
  have s: "String_bigint 10 = ''10''"
    by code_simp
  have d: "chainId (address testAccount) = ''agoriclocal''"
      "addressValue (address testAccount) = ''agoric1fakeLCAAddress''"
      "chainId cosmosDestination = ''cosmoshub-4''"
      "addressValue cosmosDestination = ''cosmos1pleab''"
    by (simp_all add: testAccount_def init_def agoricLocalAddress_def cosmosDestination_def)
  show ?thesis
    using a b c
      transfer_builds_message [where reg = testConnections and st = testAccount
        and destination = cosmosDestination
        and info = "\<lparr>transferChannel = \<lparr>portId = ''transfer'', channelId = ''channel-1''\<rparr>\<rparr>"
        and ts = 300000000000 and opts = None and now = 0 and sh = permissiveShapes
        and d = "''ubld''" and v = 10 and ack = Pending]
    by (simp add: s d)
qed

text \<open>
  C6. A \<open>sendAll\<close> with a non-empty list of denom amounts \<^verbatim>\<open>{denom: d, value: v}\<close> issues
  exactly one \<^verbatim>\<open>executeTx\<close> call, with a single bank send message whose coins are the
  amounts in input order, each as \<^verbatim>\<open>{denom: d, amount: String(v)}\<close>, to the recipient's
  address from the account's own; when the bridge fulfils the call the future resolves
  with void.
\<close>

theorem sendAll_single_bank_send:
  assumes "dvs \<noteq> []"
  shows "fst (sendAll st now reply toAccount (map (\<lambda>dv. DenomAmount (fst dv) (snd dv)) dvs)) =
           [ExecuteTx [MsgSend
              \<lparr>amount = map (\<lambda>dv. \<lparr>denom = fst dv, amount = String_bigint (snd dv)\<rparr>) dvs,
               toAddress = addressValue toAccount,
               fromAddress = addressValue (address st)\<rparr>]]
         \<and> list_all hasDenom (map (\<lambda>dv. DenomAmount (fst dv) (snd dv)) dvs)
         \<and> (\<forall>t r. reply = Fulfilled t r \<longrightarrow>
               snd (sendAll st now reply toAccount (map (\<lambda>dv. DenomAmount (fst dv) (snd dv)) dvs))
                 = Fulfilled (max now t) PUndefined)"
proof -
  have h: "list_all hasDenom (map (\<lambda>dv. DenomAmount (fst dv) (snd dv)) dvs)"
    by (induction dvs) simp_all
  show ?thesis
    by (cases reply)
       (simp_all add: sendAll_def mapAmountToCoin_denoms E_def returnVoidWatcher_onFulfilled_def h)
qed

theorem sendAll_single_bank_send_witness:
  "[(''ubld'', 10), (''uist'', 25 :: int)] \<noteq> []
   \<and> sendAll testAccount 0 (Fulfilled 2 (PArray [])) toAddress1
        [DenomAmount ''ubld'' 10, DenomAmount ''uist'' 25]
     = ([ExecuteTx [MsgSend
           \<lparr>amount = [\<lparr>denom = ''ubld'', amount = ''10''\<rparr>, \<lparr>denom = ''uist'', amount = ''25''\<rparr>],
            toAddress = ''agoric1EOAAccAddress'',
            fromAddress = ''agoric1fakeLCAAddress''\<rparr>]],
        Fulfilled 2 PUndefined)"
proof -
  have a: "[(''ubld'', 10), (''uist'', 25 :: int)] \<noteq> []"
    by simp
  have s: "String_bigint 10 = ''10''" "String_bigint 25 = ''25''"
    by code_simp+
  have d: "addressValue (address testAccount) = ''agoric1fakeLCAAddress''"
      "addressValue toAddress1 = ''agoric1EOAAccAddress''"
    by (simp_all add: testAccount_def init_def agoricLocalAddress_def toAddress1_def)
  show ?thesis
    using a sendAll_single_bank_send [OF a, of testAccount 0 "Fulfilled 2 (PArray [])" toAddress1]
    by (simp add: s d prod_eq_iff)
qed

text \<open>
  C7. \<open>getBalances\<close> and \<open>transferSteps\<close> return, without throwing, a future that is
  rejected with \<^verbatim>\<open>not yet implemented\<close>: it is never fulfilled. The \<open>CloseAccount\<close>
  invitation maker throws an error with that message instead of returning.
\<close>

theorem not_yet_implemented:
  "getBalances st now = Return ([], Rejected now (Error ''not yet implemented''))
   \<and> transferSteps st now amt msg = Return ([], Rejected now (Error ''not yet implemented''))
   \<and> CloseAccount = Throw (Error ''not yet implemented'')"
  by (simp add: getBalances_def transferSteps_def CloseAccount_def)

theorem not_yet_implemented_witness:
  "getBalances testAccount 7 = Return ([], Rejected 7 (Error ''not yet implemented''))
   \<and> transferSteps testAccount 7 (DenomAmount ''ubld'' 1) PUndefined
       = Return ([], Rejected 7 (Error ''not yet implemented''))
   \<and> CloseAccount = Throw (Error ''not yet implemented'')"
  using not_yet_implemented [of testAccount 7 "DenomAmount ''ubld'' 1" PUndefined]
  by simp

text \<open>
  C8. The address and the account given to the kit's \<open>init\<close> stay: after any run of holder
  calls (deposit, withdraw, delegate, undelegate, send, sendAll, transfer, getBalance,
  monitorTransfers), with any replies from the collaborators, \<open>getAddress\<close> returns the
  address record supplied at creation and the account is the one supplied.
\<close>

theorem address_is_immutable:
  "getAddress (fst (holderCalls pw (init mk mp acct addr node) ops)) = addr
   \<and> account (fst (holderCalls pw (init mk mp acct addr node) ops)) = acct
   \<and> getAddress (init mk mp acct addr node) = addr"
  by (simp add: holderCalls_state getAddress_def init_def)

theorem address_is_immutable_witness:
  "getAddress (fst (holderCalls testPowers (init id id ''LCA'' agoricLocalAddress ''storageNode'')
      [(0, OpDeposit (PRemotable ''payment'') (Fulfilled 1 PUndefined)),
       (2, OpUndelegate ''agoric1validator1'' (''BLD'', 999) (Fulfilled 3 [unbondingReply])),
       (4, OpTransfer (DenomAmount ''ubld'' 10) cosmosDestination None Pending)]))
     = agoricLocalAddress"
  using address_is_immutable [of testPowers id id "''LCA''" agoricLocalAddress "''storageNode''"
      "[(0, OpDeposit (PRemotable ''payment'') (Fulfilled 1 PUndefined)),
        (2, OpUndelegate ''agoric1validator1'' (''BLD'', 999) (Fulfilled 3 [unbondingReply])),
        (4, OpTransfer (DenomAmount ''ubld'' 10) cosmosDestination None Pending)]"]
  by (elim conjE)

text \<open>
  C9, as stated, fails when calls overlap. Two calls are made before the name hub has
  answered, so each sends a lookup; the first reply stores its list and the third call
  returns it, then the second reply overwrites the stored list and the fourth call returns
  the new one. The third and fourth calls both come after the first fulfilled call and
  both are served from the cache, yet they yield different lists; and the second call,
  made after the first, issued another lookup.
\<close>

theorem getVBankAssetInfo_overlapping_counterexample:
  "futures (facadeRun sampleLimits (facadeStart PNull)
      [CallGetVBankAssetInfo, CallGetVBankAssetInfo, NameHubReply 0 (Fulfils bldAssets),
       CallGetVBankAssetInfo, NameHubReply 1 (Fulfils bldAndIstAssets), CallGetVBankAssetInfo])
     = [Settled (Fulfils bldAssets), Settled (Fulfils bldAndIstAssets),
        Settled (Fulfils bldAssets), Settled (Fulfils bldAndIstAssets)]
   \<and> bldAssets \<noteq> bldAndIstAssets
   \<and> hubCalls (facadeRun sampleLimits (facadeStart PNull)
      [CallGetVBankAssetInfo, CallGetVBankAssetInfo, NameHubReply 0 (Fulfils bldAssets),
       CallGetVBankAssetInfo, NameHubReply 1 (Fulfils bldAndIstAssets), CallGetVBankAssetInfo])
     = [NameHubLookup ''vbankAsset'', NameHubValues, NameHubLookup ''vbankAsset'', NameHubValues]"
  by (simp add: facadeRun_def facadeStart_def facadeInit_def getVBankAssetInfo_def
      vbankAssetValuesWatcher_onFulfilled_def guard_vbankAssetValues_def M_arrayOf_def
      M_record_def sampleLimits_def bldAssets_def bldAndIstAssets_def)

text \<open>
  C9 (amended). A call made when nothing is cached and no lookup is unanswered sends one
  lookup; when that lookup fulfils with a list the watcher's guard admits, no other call
  having been made meanwhile, the call's future fulfils with the list and the list is
  stored in \<open>vbankAssets\<close>. From then on, whatever calls and name hub replies follow, every
  call returns the stored list at once, no lookup is sent and the state stays as it is:
  successive fulfilled calls yield the same list.
\<close>

theorem getVBankAssetInfo_caches:
  assumes "vbankAssets (kit w) = None"
      and "unanswered w = []"
      and "guard_vbankAssetValues lim assets"
      and "w' = facadeStep lim (facadeStep lim w CallGetVBankAssetInfo)
                  (NameHubReply (issued w) (Fulfils assets))"
  shows "drop (length (futures w)) (futures w') = [Settled (Fulfils assets)]
       \<and> hubCalls w' = hubCalls w @ [NameHubLookup ''vbankAsset'', NameHubValues]
       \<and> vbankAssets (kit w') = Some assets
       \<and> (\<forall>es. futures (facadeRun lim w' es)
                  = futures w' @ replicate (count_list es CallGetVBankAssetInfo)
                                   (Settled (Fulfils assets))
               \<and> hubCalls (facadeRun lim w' es) = hubCalls w'
               \<and> kit (facadeRun lim w' es) = kit w')"
proof -
  have k: "kit w' = (kit w)\<lparr>vbankAssets := Some assets\<rparr>"
    and u: "unanswered w' = []"
    and h: "hubCalls w' = hubCalls w @ [NameHubLookup ''vbankAsset'', NameHubValues]"
    and f: "futures w' = map (resolve (issued w) (Fulfils assets)) (futures w)
                           @ [Settled (Fulfils assets)]"
    using assms
    by (simp_all add: getVBankAssetInfo_def vbankAssetValuesWatcher_onFulfilled_def)
  have c: "vbankAssets (kit w') = Some assets"
    by (simp add: k)
  have d: "drop (length (futures w)) (futures w') = [Settled (Fulfils assets)]"
    by (simp add: f)
  show ?thesis
    using d h c facadeRun_cached [OF c u] by simp
qed

theorem getVBankAssetInfo_caches_witness:
  "vbankAssets (kit (facadeStart PNull)) = None
   \<and> unanswered (facadeStart PNull) = []
   \<and> guard_vbankAssetValues sampleLimits bldAssets
   \<and> futures (facadeRun sampleLimits (facadeStart PNull)
        [CallGetVBankAssetInfo, NameHubReply 0 (Fulfils bldAssets),
         CallGetVBankAssetInfo, NameHubReply 0 (Fulfils bldAndIstAssets), CallGetVBankAssetInfo])
     = [Settled (Fulfils bldAssets), Settled (Fulfils bldAssets), Settled (Fulfils bldAssets)]
   \<and> hubCalls (facadeRun sampleLimits (facadeStart PNull)
        [CallGetVBankAssetInfo, NameHubReply 0 (Fulfils bldAssets),
         CallGetVBankAssetInfo, NameHubReply 0 (Fulfils bldAndIstAssets), CallGetVBankAssetInfo])
     = [NameHubLookup ''vbankAsset'', NameHubValues]"
proof -
  have a: "vbankAssets (kit (facadeStart PNull)) = None"
    by (simp add: facadeStart_def facadeInit_def)
  have b: "unanswered (facadeStart PNull) = []"
    by (simp add: facadeStart_def)
  have c: "guard_vbankAssetValues sampleLimits bldAssets"
    by (simp add: guard_vbankAssetValues_def M_arrayOf_def M_record_def sampleLimits_def
        bldAssets_def)
  have i: "issued (facadeStart PNull) = 0" "futures (facadeStart PNull) = []"
      "hubCalls (facadeStart PNull) = []"
    by (simp_all add: facadeStart_def)
  have r: "facadeRun sampleLimits (facadeStart PNull)
        [CallGetVBankAssetInfo, NameHubReply 0 (Fulfils bldAssets),
         CallGetVBankAssetInfo, NameHubReply 0 (Fulfils bldAndIstAssets), CallGetVBankAssetInfo]
      = facadeRun sampleLimits
          (facadeStep sampleLimits (facadeStep sampleLimits (facadeStart PNull) CallGetVBankAssetInfo)
             (NameHubReply 0 (Fulfils bldAssets)))
          [CallGetVBankAssetInfo, NameHubReply 0 (Fulfils bldAndIstAssets), CallGetVBankAssetInfo]"
    by (simp add: facadeRun_def)
  show ?thesis
    using a b c
      getVBankAssetInfo_caches [where w = "facadeStart PNull" and lim = sampleLimits
        and assets = bldAssets and w' =
        "facadeStep sampleLimits (facadeStep sampleLimits (facadeStart PNull) CallGetVBankAssetInfo)
           (NameHubReply (issued (facadeStart PNull)) (Fulfils bldAssets))"]
    by (simp add: r i)
qed

text \<open>
  C10. \<open>SingleAmountRecord\<close> accepts a give record if and only if it has exactly one
  property, named by a string that the key pattern \<^verbatim>\<open>M.string()\<close> and the pattern library's
  bound on property names admit, whose value matches the amount shape. The empty record
  is rejected, and so is every record with two or more properties.
\<close>

theorem SingleAmountRecord_exactly_one:
  "(SingleAmountRecord lim amountShape (PRecord ps)
      \<longleftrightarrow> (\<exists>k v. ps = [(k, v)] \<and> M_string lim k \<and> length k \<le> propertyNameLengthLimit lim
                   \<and> amountShape v))
   \<and> \<not> SingleAmountRecord lim amountShape (PRecord [])
   \<and> (2 \<le> length ps \<longrightarrow> \<not> SingleAmountRecord lim amountShape (PRecord ps))"
proof -
  have a: "\<not> SingleAmountRecord lim amountShape (PRecord [])"
    by (simp add: SingleAmountRecord_def M_and_def M_not_def emptyRecordPattern_def)
  have b: "\<not> SingleAmountRecord lim amountShape (PRecord ps)" if "2 \<le> length ps"
    using that by (simp add: SingleAmountRecord_def M_and_def)
  have c: "SingleAmountRecord lim amountShape (PRecord ps)
             \<longleftrightarrow> (\<exists>k v. ps = [(k, v)] \<and> M_string lim k \<and> length k \<le> propertyNameLengthLimit lim
                          \<and> amountShape v)"
  proof (cases ps)
    case Nil
    then show ?thesis
      using a by simp
  next
    case (Cons p qs)
    show ?thesis
    proof (cases qs)
      case Nil
      with Cons show ?thesis
        by (cases p)
           (auto simp: SingleAmountRecord_def M_and_def M_not_def emptyRecordPattern_def)
    next
      case (Cons q rs)
      with \<open>ps = p # qs\<close> have "2 \<le> length ps"
        by simp
      then show ?thesis
        using b Cons \<open>ps = p # qs\<close> by auto
    qed
  qed
  show ?thesis
    using a b c by blast
qed

theorem SingleAmountRecord_exactly_one_witness:
  "SingleAmountRecord sampleLimits anyAmountShape
       (PRecord [(''Send'', PRecord [(''brand'', PRemotable ''BLD''), (''value'', PBigInt 10)])])
   \<and> \<not> SingleAmountRecord sampleLimits anyAmountShape (PRecord [])
   \<and> 2 \<le> length [(''Send'', PRecord []), (''Fee'', PRecord [])]
   \<and> \<not> SingleAmountRecord sampleLimits anyAmountShape
         (PRecord [(''Send'', PRecord []), (''Fee'', PRecord [])])"
proof -
  have a: "M_string sampleLimits ''Send'' \<and> length ''Send'' \<le> propertyNameLengthLimit sampleLimits"
    by (simp add: M_string_def sampleLimits_def)
  have b: "anyAmountShape (PRecord [(''brand'', PRemotable ''BLD''), (''value'', PBigInt 10)])"
    by (simp add: anyAmountShape_def)
  have c: "2 \<le> length [(''Send'', PRecord []), (''Fee'', PRecord [])]"
    by simp
  show ?thesis
    using a b c
      SingleAmountRecord_exactly_one [of sampleLimits anyAmountShape
        "[(''Send'', PRecord [(''brand'', PRemotable ''BLD''), (''value'', PBigInt 10)])]"]
      SingleAmountRecord_exactly_one [of sampleLimits anyAmountShape
        "[(''Send'', PRecord []), (''Fee'', PRecord [])]"]
    by simp
qed

end
